theory Spec2Isabelle
  imports Main "HOL-Library.Word" "HOL-Library.Sublist" "HOL-Library.Multiset"
begin

section \<open>JavaScript values\<close>

text \<open>
  The helpers of the relay dashboard (\<^verbatim>\<open>createAuthHeader\<close>, \<^verbatim>\<open>createNip98Auth\<close>,
  \<^verbatim>\<open>callRelayAPI\<close> in its two variants, and the events query of \<^verbatim>\<open>EventsList\<close>) are
  embedded as HOL functions. A JavaScript string is a \<^typ>\<open>string\<close>: a list of code units
  in the range 0..255, which is the range \<^verbatim>\<open>btoa\<close> accepts. A JavaScript number is an
  \<^typ>\<open>int\<close>: the integers are the numbers the call sites pass (event kinds) and the
  numbers the helpers compute (a status code, a timestamp in seconds); fractions, NaN and
  the infinities are outside the model.
\<close>

datatype jsval =
    JUndefined
  | JNull
  | JBool bool
  | JNum int
  | JStr string
  | JArr "jsval list"
  | JObj "(string \<times> jsval) list"

text \<open>
  An object is the list of its own properties in enumeration order; the objects the code
  builds have distinct, non-numeric keys, so that order is the order of creation.
\<close>

datatype error =
    Error string
  | TypeError string
  | SyntaxError string
  | DOMException string

subsection \<open>Characters and digits\<close>

definition dquote :: char where
  "dquote = CHR 0x22"

definition bslash :: char where
  "bslash = CHR 0x5C"

definition digit_char :: "nat \<Rightarrow> char" where
  "digit_char d = ''0123456789abcdef'' ! d"

text \<open>\<^verbatim>\<open>Number.prototype.toString(radix)\<close> on a non-negative integer, for a radix from 2 to 16.\<close>

fun toString_radix :: "nat \<Rightarrow> nat \<Rightarrow> string" where
  "toString_radix r n =
     (if r < 2 \<or> n < r then [digit_char n]
      else toString_radix r (n div r) @ [digit_char (n mod r)])"

declare toString_radix.simps [simp del]

definition show_nat :: "nat \<Rightarrow> string" where
  "show_nat n = toString_radix 10 n"

definition show_int :: "int \<Rightarrow> string" where
  "show_int i = (if i < 0 then CHR ''-'' # show_nat (nat (- i)) else show_nat (nat i))"

text \<open>\<^verbatim>\<open>String.prototype.padStart(n, c)\<close> with a one-character filler.\<close>

definition padStart :: "nat \<Rightarrow> char \<Rightarrow> string \<Rightarrow> string" where
  "padStart n c s = replicate (n - length s) c @ s"

text \<open>\<^verbatim>\<open>Array.prototype.join\<close> on strings.\<close>

fun join :: "string \<Rightarrow> string list \<Rightarrow> string" where
  "join sep [] = []"
| "join sep [x] = x"
| "join sep (x # y # ys) = x @ sep @ join sep (y # ys)"

text \<open>\<^verbatim>\<open>String.prototype.startsWith\<close>.\<close>

definition startsWith :: "string \<Rightarrow> string \<Rightarrow> bool" where
  "startsWith s p = (take (length p) s = p)"

section \<open>The scheme rewrite of the relay address\<close>

text \<open>
  \<^verbatim>\<open>relayUrl.replace(/^wss?:\/\//, 'https://')\<close>. The pattern is anchored at the start;
  the optional \<^verbatim>\<open>s\<close> is greedy, so the match of six characters is tried before the match
  of five. \<open>match_ws_scheme\<close> is the length of the match, if there is one.
\<close>

definition match_ws_scheme :: "string \<Rightarrow> nat option" where
  "match_ws_scheme s =
     (if startsWith s ''wss://'' then Some 6
      else if startsWith s ''ws://'' then Some 5
      else None)"

definition httpUrl :: "string \<Rightarrow> string" where
  "httpUrl relayUrl =
     (case match_ws_scheme relayUrl of
        None \<Rightarrow> relayUrl
      | Some n \<Rightarrow> ''https://'' @ drop n relayUrl)"

section \<open>JSON.stringify\<close>

text \<open>
  \<^verbatim>\<open>QuoteJSONString\<close> of ECMAScript: the quotation mark, the backslash and the control
  characters below U+0020 are escaped, every other code unit is copied.
\<close>

definition UnicodeEscape :: "nat \<Rightarrow> string" where
  "UnicodeEscape n = bslash # CHR ''u'' # padStart 4 (CHR ''0'') (toString_radix 16 n)"

definition QuoteJSONChar :: "char \<Rightarrow> string" where
  "QuoteJSONChar c =
     (if c = CHR 0x08 then [bslash, CHR ''b'']
      else if c = CHR 0x09 then [bslash, CHR ''t'']
      else if c = CHR 0x0A then [bslash, CHR ''n'']
      else if c = CHR 0x0C then [bslash, CHR ''f'']
      else if c = CHR 0x0D then [bslash, CHR ''r'']
      else if c = dquote then [bslash, dquote]
      else if c = bslash then [bslash, bslash]
      else if (of_char c :: nat) < 0x20 then UnicodeEscape (of_char c)
      else [c])"

definition QuoteJSONString :: "string \<Rightarrow> string" where
  "QuoteJSONString s = dquote # concat (map QuoteJSONChar s) @ [dquote]"

text \<open>
  \<^verbatim>\<open>SerializeJSONProperty\<close> with no indentation. The result \<open>None\<close> is JavaScript's
  \<^verbatim>\<open>undefined\<close>: an undefined array element is written \<^verbatim>\<open>null\<close>, an undefined property
  of an object is left out.
\<close>

fun SerializeJSONProperty :: "jsval \<Rightarrow> string option"
  and SerializeJSONArray :: "jsval list \<Rightarrow> string list"
  and SerializeJSONObject :: "(string \<times> jsval) list \<Rightarrow> string list" where
  "SerializeJSONProperty JUndefined = None"
| "SerializeJSONProperty JNull = Some ''null''"
| "SerializeJSONProperty (JBool b) = Some (if b then ''true'' else ''false'')"
| "SerializeJSONProperty (JNum n) = Some (show_int n)"
| "SerializeJSONProperty (JStr s) = Some (QuoteJSONString s)"
| "SerializeJSONProperty (JArr xs) =
     Some (''['' @ join '','' (SerializeJSONArray xs) @ '']'')"
| "SerializeJSONProperty (JObj ps) =
     Some (''{'' @ join '','' (SerializeJSONObject ps) @ ''}'')"
| "SerializeJSONArray [] = []"
| "SerializeJSONArray (x # xs) =
     (case SerializeJSONProperty x of
        None \<Rightarrow> ''null'' # SerializeJSONArray xs
      | Some t \<Rightarrow> t # SerializeJSONArray xs)"
| "SerializeJSONObject [] = []"
| "SerializeJSONObject (p # ps) =
     (case SerializeJSONProperty (snd p) of
        None \<Rightarrow> SerializeJSONObject ps
      | Some t \<Rightarrow> (QuoteJSONString (fst p) @ '':'' @ t) # SerializeJSONObject ps)"

definition JSON_stringify :: "jsval \<Rightarrow> string option" where
  "JSON_stringify v = SerializeJSONProperty v"

section \<open>JSON.parse\<close>

text \<open>
  \<^verbatim>\<open>JSON.parse\<close>, by recursive descent on the text. Every parser returns the value it
  read and the text that follows it, or \<open>None\<close> where \<^verbatim>\<open>JSON.parse\<close> throws a SyntaxError.
  Two kinds of text are outside the model and give \<open>None\<close> as well: a number with a
  fraction or an exponent, and an escape \<^verbatim>\<open>\uXXXX\<close> above U+00FF.
\<close>

definition is_ws :: "char \<Rightarrow> bool" where
  "is_ws c = (c = CHR 0x20 \<or> c = CHR 0x09 \<or> c = CHR 0x0A \<or> c = CHR 0x0D)"

definition skip_ws :: "string \<Rightarrow> string" where
  "skip_ws s = dropWhile is_ws s"

definition hex_val :: "char \<Rightarrow> nat option" where
  "hex_val c =
     (let n = (of_char c :: nat)
      in if 48 \<le> n \<and> n \<le> 57 then Some (n - 48)
         else if 97 \<le> n \<and> n \<le> 102 then Some (n - 87)
         else if 65 \<le> n \<and> n \<le> 70 then Some (n - 55)
         else None)"

definition parse_hex4 :: "string \<Rightarrow> nat option" where
  "parse_hex4 s =
     (case map hex_val s of
        [Some a, Some b, Some c, Some d] \<Rightarrow> Some (((a * 16 + b) * 16 + c) * 16 + d)
      | _ \<Rightarrow> None)"

definition unescape :: "char \<Rightarrow> char option" where
  "unescape e =
     (if e = dquote then Some dquote
      else if e = bslash then Some bslash
      else if e = CHR ''/'' then Some (CHR ''/'')
      else if e = CHR ''b'' then Some (CHR 0x08)
      else if e = CHR ''f'' then Some (CHR 0x0C)
      else if e = CHR ''n'' then Some (CHR 0x0A)
      else if e = CHR ''r'' then Some (CHR 0x0D)
      else if e = CHR ''t'' then Some (CHR 0x09)
      else None)"

text \<open>
  The characters of a string literal after the opening quotation mark, up to the closing
  one.
\<close>

fun parse_chars :: "string \<Rightarrow> (string \<times> string) option" where
  "parse_chars [] = None"
| "parse_chars (c # s) =
     (if c = dquote then Some ([], s)
      else if c = bslash then
        (case s of
           [] \<Rightarrow> None
         | e # s' \<Rightarrow>
             if e = CHR ''u'' then
               (case parse_hex4 (take 4 s') of
                  None \<Rightarrow> None
                | Some n \<Rightarrow>
                    if n < 256 then
                      (case parse_chars (drop 4 s') of
                         None \<Rightarrow> None
                       | Some (t, r) \<Rightarrow> Some (char_of n # t, r))
                    else None)
             else
               (case unescape e of
                  None \<Rightarrow> None
                | Some x \<Rightarrow>
                    (case parse_chars s' of
                       None \<Rightarrow> None
                     | Some (t, r) \<Rightarrow> Some (x # t, r))))
      else if (of_char c :: nat) < 0x20 then None
      else (case parse_chars s of
              None \<Rightarrow> None
            | Some (t, r) \<Rightarrow> Some (c # t, r)))"

definition is_digit :: "char \<Rightarrow> bool" where
  "is_digit c = (48 \<le> (of_char c :: nat) \<and> (of_char c :: nat) \<le> 57)"

definition digits_val :: "string \<Rightarrow> nat" where
  "digits_val ds = foldl (\<lambda>a c. a * 10 + (of_char c - 48)) 0 ds"

definition parse_number :: "string \<Rightarrow> (jsval \<times> string) option" where
  "parse_number s =
     (let neg = startsWith s ''-'';
          s1 = (if neg then drop 1 s else s);
          ds = takeWhile is_digit s1;
          r = dropWhile is_digit s1
      in if ds = [] then None
         else if startsWith ds ''0'' \<and> 1 < length ds then None
         else if startsWith r ''.'' \<or> startsWith r ''e'' \<or> startsWith r ''E'' then None
         else Some (JNum (if neg then - int (digits_val ds) else int (digits_val ds)), r))"

text \<open>
  A repeated key keeps the place of its first occurrence and takes the last value, as
  repeated assignment to a property does.
\<close>

fun put_prop :: "string \<Rightarrow> jsval \<Rightarrow> (string \<times> jsval) list \<Rightarrow> (string \<times> jsval) list" where
  "put_prop k v [] = [(k, v)]"
| "put_prop k v (p # ps) = (if fst p = k then (k, v) # ps else p # put_prop k v ps)"

definition object_of :: "(string \<times> jsval) list \<Rightarrow> jsval" where
  "object_of ms = JObj (foldl (\<lambda>acc m. put_prop (fst m) (snd m) acc) [] ms)"

text \<open>
  The three parsers of values, of the elements of an array after its bracket, and of the
  members of an object after its brace. Where a parser continues after a value that
  another one has read, it checks that the text left is shorter, which makes termination
  evident; \<open>parse_consumes\<close> below shows that the check never fails.
\<close>

lemma length_skip_ws: "length (skip_ws s) \<le> length s"
  by (simp add: skip_ws_def length_dropWhile_le)

lemma skip_ws_Cons_length: "skip_ws s = c # r \<Longrightarrow> length r < length s"
  using length_skip_ws [of s] by simp

function parse_value :: "string \<Rightarrow> (jsval \<times> string) option"
  and parse_elements :: "string \<Rightarrow> (jsval list \<times> string) option"
  and parse_members :: "string \<Rightarrow> ((string \<times> jsval) list \<times> string) option" where
  "parse_value s =
     (case skip_ws s of
        [] \<Rightarrow> None
      | c # r \<Rightarrow>
          if c = CHR ''['' then
            (if startsWith (skip_ws r) '']'' then Some (JArr [], drop 1 (skip_ws r))
             else (case parse_elements r of
                     None \<Rightarrow> None
                   | Some (vs, t) \<Rightarrow> Some (JArr vs, t)))
          else if c = CHR ''{'' then
            (if startsWith (skip_ws r) ''}'' then Some (JObj [], drop 1 (skip_ws r))
             else (case parse_members r of
                     None \<Rightarrow> None
                   | Some (ms, t) \<Rightarrow> Some (object_of ms, t)))
          else if c = dquote then
            (case parse_chars r of
               None \<Rightarrow> None
             | Some (str, t) \<Rightarrow> Some (JStr str, t))
          else if startsWith (c # r) ''null'' then Some (JNull, drop 4 (c # r))
          else if startsWith (c # r) ''true'' then Some (JBool True, drop 4 (c # r))
          else if startsWith (c # r) ''false'' then Some (JBool False, drop 5 (c # r))
          else parse_number (c # r))"
| "parse_elements s =
     (case parse_value s of
        None \<Rightarrow> None
      | Some (v, r) \<Rightarrow>
          (case skip_ws r of
             [] \<Rightarrow> None
           | c # r' \<Rightarrow>
               if c = CHR '','' then
                 (if length r' < length s then
                    (case parse_elements r' of
                       None \<Rightarrow> None
                     | Some (vs, t) \<Rightarrow> Some (v # vs, t))
                  else None)
               else if c = CHR '']'' then Some ([v], r')
               else None))"
| "parse_members s =
     (case skip_ws s of
        [] \<Rightarrow> None
      | c # r \<Rightarrow>
          if c \<noteq> dquote then None
          else
            (case parse_chars r of
               None \<Rightarrow> None
             | Some (k, r1) \<Rightarrow>
                 (case skip_ws r1 of
                    [] \<Rightarrow> None
                  | c1 # r2 \<Rightarrow>
                      if c1 \<noteq> CHR '':'' \<or> \<not> length r2 < length s then None
                      else
                        (case parse_value r2 of
                           None \<Rightarrow> None
                         | Some (v, r3) \<Rightarrow>
                             (case skip_ws r3 of
                                [] \<Rightarrow> None
                              | c3 # r4 \<Rightarrow>
                                  if c3 = CHR '','' then
                                    (if length r4 < length s then
                                       (case parse_members r4 of
                                          None \<Rightarrow> None
                                        | Some (ms, t) \<Rightarrow> Some ((k, v) # ms, t))
                                     else None)
                                  else if c3 = CHR ''}'' then Some ([(k, v)], r4)
                                  else None)))))"
  by pat_completeness auto
termination
  by (relation "measure (\<lambda>x. case x of
         Inl s \<Rightarrow> 2 * length s
       | Inr (Inl s) \<Rightarrow> 2 * length s + 1
       | Inr (Inr s) \<Rightarrow> 2 * length s + 1)")
    (auto dest: skip_ws_Cons_length)

declare parse_value.simps [simp del] parse_elements.simps [simp del] parse_members.simps [simp del]

definition JSON_parse :: "string \<Rightarrow> jsval option" where
  "JSON_parse text =
     (case parse_value text of
        None \<Rightarrow> None
      | Some (v, r) \<Rightarrow> if skip_ws r = [] then Some v else None)"




section \<open>Bytes: TextEncoder, the hexadecimal digest, btoa\<close>

type_synonym byte = "8 word"

text \<open>\<^verbatim>\<open>new TextEncoder().encode(s)\<close>: UTF-8, here for code units up to U+00FF.\<close>

definition utf8_unit :: "char \<Rightarrow> byte list" where
  "utf8_unit c =
     (let n = (of_char c :: nat)
      in if n < 0x80 then [of_nat n] else [of_nat (0xC0 + n div 64), of_nat (0x80 + n mod 64)])"

definition TextEncoder_encode :: "string \<Rightarrow> byte list" where
  "TextEncoder_encode s = concat (map utf8_unit s)"

text \<open>
  \<^verbatim>\<open>Array.from(new Uint8Array(hash)).map(b => b.toString(16).padStart(2, '0')).join('')\<close>
\<close>

definition hashHex :: "byte list \<Rightarrow> string" where
  "hashHex hash = join [] (map (\<lambda>b. padStart 2 (CHR ''0'') (toString_radix 16 (unat b))) hash)"

text \<open>
  The hexadecimal encoding in the words of the specification: every byte is two lower-case
  hexadecimal digits, the high half first.
\<close>

definition hex_encode :: "byte list \<Rightarrow> string" where
  "hex_encode bs = concat (map (\<lambda>b. [digit_char (unat b div 16), digit_char (unat b mod 16)]) bs)"

text \<open>
  \<^verbatim>\<open>btoa\<close>: base64 with padding, of a string of code units up to U+00FF. (On a string
  with a code unit above U+00FF \<^verbatim>\<open>btoa\<close> raises; such strings are not values of
  \<^typ>\<open>string\<close>.)
\<close>

definition b64_char :: "nat \<Rightarrow> char" where
  "b64_char n = ''ABCDEFGHIJKLMNOPQRSTUVWXYZabcdefghijklmnopqrstuvwxyz0123456789+/'' ! n"

fun btoa_units :: "nat list \<Rightarrow> string" where
  "btoa_units [] = []"
| "btoa_units [a] = [b64_char (a div 4), b64_char (a mod 4 * 16), CHR ''='', CHR ''='']"
| "btoa_units [a, b] =
     [b64_char (a div 4), b64_char (a mod 4 * 16 + b div 16), b64_char (b mod 16 * 4), CHR ''='']"
| "btoa_units (a # b # c # r) =
     [b64_char (a div 4), b64_char (a mod 4 * 16 + b div 16),
      b64_char (b mod 16 * 4 + c div 64), b64_char (c mod 64)] @ btoa_units r"

definition btoa :: "string \<Rightarrow> string" where
  "btoa s = btoa_units (map of_char s)"

section \<open>The browser, the signer and the network\<close>

text \<open>
  The interface \<^verbatim>\<open>NostrEvent\<close>: \<^verbatim>\<open>id\<close>, \<^verbatim>\<open>pubkey\<close> and \<^verbatim>\<open>sig\<close> are optional.
\<close>

record NostrEvent =
  event_id :: "string option"
  kind :: int
  content :: string
  tags :: "string list list"
  created_at :: int
  pubkey :: "string option"
  sig :: "string option"

text \<open>
  \<^verbatim>\<open>window.nostr.signEvent\<close> resolves to the object the extension returns, or rejects.
\<close>

record NostrSigner =
  signEvent :: "NostrEvent \<Rightarrow> error + jsval"

record request =
  req_url :: string
  req_method :: string
  req_headers :: "(string \<times> string) list"
  req_body :: "string option"

text \<open>
  A response: \<open>json\<close> is what \<^verbatim>\<open>response.json()\<close> resolves to, or the error it rejects
  with. \<^verbatim>\<open>response.ok\<close> is true for a status from 200 to 299.
\<close>

record response =
  status :: nat
  statusText :: string
  json :: "error + jsval"

definition ok :: "response \<Rightarrow> bool" where
  "ok r = (200 \<le> status r \<and> status r \<le> 299)"

text \<open>
  What the helpers read from the browser: \<^verbatim>\<open>window.nostr\<close> (absent when no extension is
  installed), \<^verbatim>\<open>Date.now()\<close> in milliseconds, \<^verbatim>\<open>crypto.subtle.digest('SHA-256', _)\<close> and
  \<^verbatim>\<open>fetch\<close>.
\<close>

record browser =
  window_nostr :: "NostrSigner option"
  Date_now :: int
  digest_SHA256 :: "byte list \<Rightarrow> byte list"
  fetch :: "request \<Rightarrow> error + response"

text \<open>What a call does to the outside, in order.\<close>

datatype effect =
    SignEvent NostrEvent
  | Fetch request
  | ConsoleWarn string error

section \<open>The auth-header builder\<close>

text \<open>
  \<^verbatim>\<open>createAuthHeader(url, method, payload?)\<close>:
  \<^verbatim>\<open>if (!window.nostr) throw new Error("NIP-07 extension not found");\<close>
  \<^verbatim>\<open>const event = { kind: 27235, content: "", tags: [["u", url], ["method", method]],\<close>
  \<^verbatim>\<open>                created_at: Math.floor(Date.now() / 1000) };\<close>
  \<^verbatim>\<open>if (payload) { ...; event.tags.push(["payload", hashHex]); }\<close>
  \<^verbatim>\<open>const signedEvent = await window.nostr.signEvent(event);\<close>
  \<^verbatim>\<open>return `Nostr ${btoa(JSON.stringify(signedEvent))}`;\<close>
  The test \<^verbatim>\<open>if (payload)\<close> is false for an absent body and for the empty string. The
  result is paired with what the call did to the outside: the record it handed to the
  signer. \<^verbatim>\<open>btoa\<close> turns an undefined serialization into the text \<^verbatim>\<open>undefined\<close>.
\<close>

definition createAuthHeader ::
  "browser \<Rightarrow> string \<Rightarrow> string \<Rightarrow> string option \<Rightarrow> effect list \<times> (error + string)" where
  "createAuthHeader w url method payload =
     (case window_nostr w of
        None \<Rightarrow> ([], Inl (Error ''NIP-07 extension not found''))
      | Some nostr \<Rightarrow>
          let event0 = \<lparr>event_id = None, kind = 27235, content = [],
                tags = [[''u'', url], [''method'', method]],
                created_at = Date_now w div 1000, pubkey = None, sig = None\<rparr>;
              event =
                (case payload of
                   None \<Rightarrow> event0
                 | Some p \<Rightarrow>
                     if p = [] then event0
                     else event0\<lparr>tags := tags event0 @
                            [[''payload'', hashHex (digest_SHA256 w (TextEncoder_encode p))]]\<rparr>)
          in (case signEvent nostr event of
                Inl e \<Rightarrow> ([SignEvent event], Inl e)
              | Inr signedEvent \<Rightarrow>
                  ([SignEvent event],
                   Inr (''Nostr '' @ btoa (case JSON_stringify signedEvent of
                                             None \<Rightarrow> ''undefined''
                                           | Some s \<Rightarrow> s)))))"

text \<open>\<^verbatim>\<open>createNip98Auth\<close> of the events list has the same body.\<close>

definition createNip98Auth ::
  "browser \<Rightarrow> string \<Rightarrow> string \<Rightarrow> string option \<Rightarrow> effect list \<times> (error + string)" where
  "createNip98Auth w url method payload =
     (case window_nostr w of
        None \<Rightarrow> ([], Inl (Error ''NIP-07 extension not found''))
      | Some nostr \<Rightarrow>
          let event0 = \<lparr>event_id = None, kind = 27235, content = [],
                tags = [[''u'', url], [''method'', method]],
                created_at = Date_now w div 1000, pubkey = None, sig = None\<rparr>;
              event =
                (case payload of
                   None \<Rightarrow> event0
                 | Some p \<Rightarrow>
                     if p = [] then event0
                     else event0\<lparr>tags := tags event0 @
                            [[''payload'', hashHex (digest_SHA256 w (TextEncoder_encode p))]]\<rparr>)
          in (case signEvent nostr event of
                Inl e \<Rightarrow> ([SignEvent event], Inl e)
              | Inr signedEvent \<Rightarrow>
                  ([SignEvent event],
                   Inr (''Nostr '' @ btoa (case JSON_stringify signedEvent of
                                             None \<Rightarrow> ''undefined''
                                           | Some s \<Rightarrow> s)))))"

section \<open>The administrative RPC caller\<close>

text \<open>
  The parameter list has the type \<^verbatim>\<open>(string | number | undefined)[]\<close>.
\<close>

datatype param = PStr string | PNum int | PUndefined

fun param_val :: "param \<Rightarrow> jsval" where
  "param_val (PStr s) = JStr s"
| "param_val (PNum n) = JNum n"
| "param_val PUndefined = JUndefined"

text \<open>
  Reading a property of a value that \<^verbatim>\<open>response.json()\<close> produced. The properties read
  are \<^verbatim>\<open>error\<close> and \<^verbatim>\<open>result\<close>, which no prototype defines: they are own properties of
  an object or undefined. Reading a property of \<^verbatim>\<open>null\<close> raises a TypeError.
\<close>

definition get_prop :: "jsval \<Rightarrow> string \<Rightarrow> error + jsval" where
  "get_prop v k =
     (case v of
        JObj ps \<Rightarrow> Inr (case map_of ps k of None \<Rightarrow> JUndefined | Some x \<Rightarrow> x)
      | JNull \<Rightarrow> Inl (TypeError ''Cannot read properties of null'')
      | JUndefined \<Rightarrow> Inl (TypeError ''Cannot read properties of undefined'')
      | _ \<Rightarrow> Inr JUndefined)"

text \<open>\<^verbatim>\<open>ToBoolean\<close>: what \<^verbatim>\<open>if (result.error)\<close> tests.\<close>

fun truthy :: "jsval \<Rightarrow> bool" where
  "truthy JUndefined = False"
| "truthy JNull = False"
| "truthy (JBool b) = b"
| "truthy (JNum n) = (n \<noteq> 0)"
| "truthy (JStr s) = (s \<noteq> [])"
| "truthy (JArr xs) = True"
| "truthy (JObj ps) = True"

text \<open>
  \<^verbatim>\<open>ToString\<close>, which \<^verbatim>\<open>new Error(message)\<close> applies to its argument. An array is joined
  with commas, its \<^verbatim>\<open>null\<close> and undefined elements as empty strings. A parsed object is
  \<^verbatim>\<open>[object Object]\<close>, unless it has an own property \<^verbatim>\<open>toString\<close>: that property is not
  a function, and the conversion raises a TypeError.
\<close>

fun ToString :: "jsval \<Rightarrow> error + string"
  and ToString_elems :: "jsval list \<Rightarrow> error + string list" where
  "ToString JUndefined = Inr ''undefined''"
| "ToString JNull = Inr ''null''"
| "ToString (JBool b) = Inr (if b then ''true'' else ''false'')"
| "ToString (JNum n) = Inr (show_int n)"
| "ToString (JStr s) = Inr s"
| "ToString (JArr xs) =
     (case ToString_elems xs of Inl e \<Rightarrow> Inl e | Inr ts \<Rightarrow> Inr (join '','' ts))"
| "ToString (JObj ps) =
     (if map_of ps ''toString'' = None then Inr ''[object Object]''
      else Inl (TypeError ''Cannot convert object to primitive value''))"
| "ToString_elems [] = Inr []"
| "ToString_elems (x # xs) =
     (case (if x = JUndefined \<or> x = JNull then Inr [] else ToString x) of
        Inl e \<Rightarrow> Inl e
      | Inr t \<Rightarrow> (case ToString_elems xs of Inl e \<Rightarrow> Inl e | Inr ts \<Rightarrow> Inr (t # ts)))"

text \<open>What \<^verbatim>\<open>throw new Error(v)\<close> throws.\<close>

definition throw_new_Error :: "jsval \<Rightarrow> error" where
  "throw_new_Error v = (case ToString v of Inl e \<Rightarrow> e | Inr m \<Rightarrow> Error m)"

text \<open>
  The statements of \<^verbatim>\<open>callRelayAPI\<close> after \<^verbatim>\<open>fetch\<close> has resolved, the same in every
  copy of the function:
  \<^verbatim>\<open>if (!response.ok) throw new Error(`HTTP ${response.status}: ${response.statusText}`);\<close>
  \<^verbatim>\<open>const result = await response.json();\<close>
  \<^verbatim>\<open>if (result.error) throw new Error(result.error);\<close>
  \<^verbatim>\<open>return result.result;\<close>
\<close>

definition unwrap_response :: "response \<Rightarrow> error + jsval" where
  "unwrap_response response =
     (if \<not> ok response
      then Inl (Error (''HTTP '' @ show_nat (status response) @ '': '' @ statusText response))
      else (case json response of
              Inl e \<Rightarrow> Inl e
            | Inr result \<Rightarrow>
                (case get_prop result ''error'' of
                   Inl e \<Rightarrow> Inl e
                 | Inr err \<Rightarrow>
                     if truthy err then Inl (throw_new_Error err)
                     else get_prop result ''result'')))"

text \<open>The body \<^verbatim>\<open>JSON.stringify({ method, params })\<close>.\<close>

definition rpc_payload :: "string \<Rightarrow> param list \<Rightarrow> string option" where
  "rpc_payload method params =
     JSON_stringify (JObj [(''method'', JStr method), (''params'', JArr (map param_val params))])"



definition rpc_request :: "string \<Rightarrow> string \<Rightarrow> string option \<Rightarrow> request" where
  "rpc_request u authHeader payload =
     \<lparr>req_url = u, req_method = ''POST'',
      req_headers = [(''Content-Type'', ''application/nostr+json+rpc''),
                     (''Authorization'', authHeader)],
      req_body = payload\<rparr>"

text \<open>
  \<^verbatim>\<open>callRelayAPI(relayUrl, method, params = [])\<close> of the user management, the event
  moderation and the connection status components: no \<^verbatim>\<open>try\<close>, every failure reaches the
  caller. An omitted parameter list is \<open>None\<close>.
\<close>

definition callRelayAPI ::
  "browser \<Rightarrow> string \<Rightarrow> string \<Rightarrow> param list option \<Rightarrow> effect list \<times> (error + jsval)" where
  "callRelayAPI w relayUrl method params_arg =
     (let params = (case params_arg of None \<Rightarrow> [] | Some ps \<Rightarrow> ps);
          u = httpUrl relayUrl;
          payload = rpc_payload method params
      in (case createAuthHeader w u ''POST'' payload of
            (log, Inl e) \<Rightarrow> (log, Inl e)
          | (log, Inr authHeader) \<Rightarrow>
              (log @ [Fetch (rpc_request u authHeader payload)],
               (case fetch w (rpc_request u authHeader payload) of
                  Inl e \<Rightarrow> Inl e
                | Inr response \<Rightarrow> unwrap_response response))))"

text \<open>
  \<^verbatim>\<open>callRelayAPI\<close> of the events list. \<open>callRelayAPI_try\<close> is its \<^verbatim>\<open>try\<close> block; the
  \<^verbatim>\<open>catch\<close> block warns on the console, returns an empty array for a method whose name
  starts with \<^verbatim>\<open>list\<close>, and throws the error again for any other method.
\<close>

definition callRelayAPI_try ::
  "browser \<Rightarrow> string \<Rightarrow> string option \<Rightarrow> effect list \<times> (error + jsval)" where
  "callRelayAPI_try w u payload =
     (case createNip98Auth w u ''POST'' payload of
        (log, Inl e) \<Rightarrow> (log, Inl e)
      | (log, Inr authHeader) \<Rightarrow>
          (log @ [Fetch (rpc_request u authHeader payload)],
           (case fetch w (rpc_request u authHeader payload) of
              Inl e \<Rightarrow> Inl e
            | Inr response \<Rightarrow> unwrap_response response)))"

definition callRelayAPI_EventsList ::
  "browser \<Rightarrow> string \<Rightarrow> string \<Rightarrow> param list option \<Rightarrow> effect list \<times> (error + jsval)" where
  "callRelayAPI_EventsList w relayUrl method params_arg =
     (let params = (case params_arg of None \<Rightarrow> [] | Some ps \<Rightarrow> ps);
          u = httpUrl relayUrl;
          payload = rpc_payload method params
      in (case callRelayAPI_try w u payload of
            (log, Inr v) \<Rightarrow> (log, Inr v)
          | (log, Inl e) \<Rightarrow>
              (log @ [ConsoleWarn (''NIP-86 API call failed for '' @ method @ '':'') e],
               if startsWith method ''list'' then Inr (JArr []) else Inl e)))"

section \<open>The events query\<close>

text \<open>
  \<^verbatim>\<open>Array.prototype.sort(comparefn)\<close> is a stable sort: with a consistent comparison
  function its result is the one that insertion from the right computes, each element
  placed before the first one it does not come after.
\<close>

fun insert_sorted :: "('a \<Rightarrow> 'a \<Rightarrow> int) \<Rightarrow> 'a \<Rightarrow> 'a list \<Rightarrow> 'a list" where
  "insert_sorted comparefn x [] = [x]"
| "insert_sorted comparefn x (y # ys) =
     (if comparefn x y \<le> 0 then x # y # ys else y # insert_sorted comparefn x ys)"

definition Array_sort :: "('a \<Rightarrow> 'a \<Rightarrow> int) \<Rightarrow> 'a list \<Rightarrow> 'a list" where
  "Array_sort comparefn xs = foldr (insert_sorted comparefn) xs []"

text \<open>\<^verbatim>\<open>String.prototype.split\<close> on a one-character separator.\<close>

fun split_on :: "char \<Rightarrow> string \<Rightarrow> string list" where
  "split_on sep [] = [[]]"
| "split_on sep (c # s) =
     (if c = sep then [] # split_on sep s
      else (case split_on sep s of
              [] \<Rightarrow> [[c]]
            | x # xs \<Rightarrow> (c # x) # xs))"

text \<open>
  The filter the query function builds from the kind selector, the limit and the custom
  kind. \<^verbatim>\<open>parseInt\<close> is taken as a parameter; \<open>None\<close> is its result \<^verbatim>\<open>NaN\<close>.
\<close>

record query_filter =
  filter_limit :: int
  filter_kinds :: "int list option"

definition events_filter ::
  "(string \<Rightarrow> int option) \<Rightarrow> string \<Rightarrow> int \<Rightarrow> string \<Rightarrow> query_filter" where
  "events_filter parseInt kindFilter limit customKind =
     (let filter0 = \<lparr>filter_limit = limit, filter_kinds = None\<rparr>
      in if kindFilter \<noteq> ''all'' then
           (if kindFilter = ''custom'' \<and> customKind \<noteq> [] then
              (case parseInt customKind of
                 None \<Rightarrow> filter0
               | Some k \<Rightarrow> filter0\<lparr>filter_kinds := Some [k]\<rparr>)
            else if kindFilter \<noteq> ''custom'' then
              (let kinds = List.map_filter parseInt (split_on (CHR '','') kindFilter)
               in if 0 < length kinds then filter0\<lparr>filter_kinds := Some kinds\<rparr> else filter0)
            else filter0)
         else filter0)"

text \<open>
  The query function of the events list:
  \<^verbatim>\<open>const events = await nostr.query([filter], { signal });\<close>
  \<^verbatim>\<open>return events.sort((a, b) => b.created_at - a.created_at);\<close>
  The transport \<^verbatim>\<open>nostr.query\<close> is a parameter; it returns a batch of events or fails
  (also when the abort signal of ten seconds fires).
\<close>

definition events_queryFn ::
  "(string \<Rightarrow> int option) \<Rightarrow> (query_filter list \<Rightarrow> error + NostrEvent list) \<Rightarrow>
   string \<Rightarrow> int \<Rightarrow> string \<Rightarrow> error + NostrEvent list" where
  "events_queryFn parseInt nostr_query kindFilter limit customKind =
     (case nostr_query [events_filter parseInt kindFilter limit customKind] of
        Inl e \<Rightarrow> Inl e
      | Inr events \<Rightarrow> Inr (Array_sort (\<lambda>a b. created_at b - created_at a) events))"

section \<open>Example values\<close>

text \<open>
  A signer, a browser and a relay reply for the examples below. The digest of the example
  browser is a fixed stand-in of four bytes, not SHA-256.
\<close>

definition example_signer :: NostrSigner where
  "example_signer =
     \<lparr>signEvent = (\<lambda>ev. Inr (JObj [(''kind'', JNum (kind ev)),
                                     (''created_at'', JNum (created_at ev)),
                                     (''sig'', JStr ''cd'')]))\<rparr>"

definition example_browser :: "NostrSigner option \<Rightarrow> (error + response) \<Rightarrow> browser" where
  "example_browser signer reply =
     \<lparr>window_nostr = signer, Date_now = 1700000000123,
      digest_SHA256 = (\<lambda>bytes. [0xba, 0x78, 0x16, 0x0f]),
      fetch = (\<lambda>req. reply)\<rparr>"

definition example_reply :: "nat \<Rightarrow> string \<Rightarrow> string \<Rightarrow> error + response" where
  "example_reply st txt body =
     Inr \<lparr>status = st, statusText = txt,
          json = (case JSON_parse body of
                    None \<Rightarrow> Inl (SyntaxError ''Unexpected token'')
                  | Some v \<Rightarrow> Inr v)\<rparr>"

definition example_header :: string where
  "example_header =
     ''Nostr eyJraW5kIjoyNzIzNSwiY3JlYXRlZF9hdCI6MTcwMDAwMDAwMCwic2lnIjoiY2QifQ==''"

definition example_request :: "string \<Rightarrow> param list \<Rightarrow> request" where
  "example_request m ps = rpc_request ''https://relay.example'' example_header (rpc_payload m ps)"

definition example_event :: "string \<Rightarrow> int \<Rightarrow> NostrEvent" where
  "example_event i t =
     \<lparr>event_id = Some i, kind = 1, content = ''hello'', tags = [], created_at = t,
      pubkey = Some ''abc123'', sig = Some ''cd''\<rparr>"

text \<open>The equations that evaluate the examples.\<close>

lemmas eval_simps =
  example_browser_def example_signer_def example_reply_def
  createAuthHeader_def createNip98Auth_def callRelayAPI_def callRelayAPI_try_def
  callRelayAPI_EventsList_def rpc_payload_def rpc_request_def unwrap_response_def ok_def
  get_prop_def throw_new_Error_def httpUrl_def match_ws_scheme_def startsWith_def
  Let_def hashHex_def hex_encode_def toString_radix.simps padStart_def TextEncoder_encode_def
  utf8_unit_def JSON_stringify_def QuoteJSONString_def QuoteJSONChar_def UnicodeEscape_def
  dquote_def bslash_def show_int_def show_nat_def digit_char_def btoa_def b64_char_def

lemmas parse_simps =
  JSON_parse_def parse_value.simps parse_elements.simps parse_members.simps skip_ws_def is_ws_def
  parse_number_def is_digit_def digits_val_def object_of_def unescape_def parse_hex4_def
  hex_val_def

lemmas ex_simps =
  eval_simps parse_simps example_header_def example_request_def example_event_def

section \<open>Properties of the scheme rewrite\<close>

lemma httpUrl_wss: "httpUrl (''wss://'' @ rest) = ''https://'' @ rest"
  by (simp add: httpUrl_def match_ws_scheme_def startsWith_def)

lemma httpUrl_ws: "httpUrl (''ws://'' @ rest) = ''https://'' @ rest"
  by (simp add: httpUrl_def match_ws_scheme_def startsWith_def)

lemma httpUrl_other:
  "\<not> startsWith u ''ws://'' \<Longrightarrow> \<not> startsWith u ''wss://'' \<Longrightarrow> httpUrl u = u"
  by (simp add: httpUrl_def match_ws_scheme_def)

text \<open>
  Claim C8. The relay address is rewritten by a pure function of the string: a leading
  \<^verbatim>\<open>ws://\<close> or \<^verbatim>\<open>wss://\<close> is replaced by \<^verbatim>\<open>https://\<close> and the remainder is kept as it
  is; an address that starts with neither is returned unchanged.
\<close>

theorem C8_scheme_rewrite:
  "httpUrl (''ws://'' @ rest) = ''https://'' @ rest
   \<and> httpUrl (''wss://'' @ rest) = ''https://'' @ rest
   \<and> (\<not> startsWith u ''ws://'' \<and> \<not> startsWith u ''wss://'' \<longrightarrow> httpUrl u = u)"
  using httpUrl_ws httpUrl_wss httpUrl_other by blast

theorem C8_scheme_rewrite_witness:
  "httpUrl ''ws://relay.example/a'' = ''https://relay.example/a''
   \<and> httpUrl ''wss://relay.nostr.band'' = ''https://relay.nostr.band''
   \<and> \<not> startsWith ''http://nos.lol'' ''ws://''
   \<and> \<not> startsWith ''http://nos.lol'' ''wss://''
   \<and> httpUrl ''http://nos.lol'' = ''http://nos.lol''"
  using C8_scheme_rewrite [of "''relay.example/a''" "''http://nos.lol''"]
    C8_scheme_rewrite [of "''relay.nostr.band''" "''http://nos.lol''"]
  by (simp add: startsWith_def)

section \<open>Properties of the hexadecimal digest\<close>

lemma join_nil_concat: "join [] xs = concat xs"
  by (induction xs rule: induct_list012) auto

lemma toString_radix_small: "n < r \<Longrightarrow> toString_radix r n = [digit_char n]"
  by (simp add: toString_radix.simps)

lemma toString_radix_step:
  "2 \<le> r \<Longrightarrow> r \<le> n \<Longrightarrow>
   toString_radix r n = toString_radix r (n div r) @ [digit_char (n mod r)]"
  by (subst toString_radix.simps) simp

lemma digit_char_0: "digit_char 0 = CHR ''0''"
  by (simp add: digit_char_def)

lemma hex2:
  assumes "n < 256"
  shows "padStart 2 (CHR ''0'') (toString_radix 16 n) =
           [digit_char (n div 16), digit_char (n mod 16)]"
proof (cases "n < 16")
  case True
  then show ?thesis by (simp add: toString_radix_small padStart_def digit_char_0)
next
  case False
  then have ge: "16 \<le> n" by simp
  have "n div 16 < 16" using assms by simp
  then show ?thesis using ge
    by (simp add: toString_radix_step toString_radix_small padStart_def)
qed

lemma byte_hex:
  fixes b :: byte
  shows "padStart 2 (CHR ''0'') (toString_radix 16 (unat b)) =
           [digit_char (unat b div 16), digit_char (unat b mod 16)]"
proof -
  have "unat b < 256" using unsigned_less [of b, where 'a = nat] by simp
  then show ?thesis by (rule hex2)
qed

text \<open>The code's digest string is the hexadecimal encoding the specification describes.\<close>

lemma hashHex_hex_encode: "hashHex bs = hex_encode bs"
  by (simp add: hashHex_def hex_encode_def join_nil_concat byte_hex)

lemma length_hex_encode: "length (hex_encode bs) = 2 * length bs"
  by (induction bs) (simp_all add: hex_encode_def)

section \<open>Properties of the auth-header builder\<close>

lemma createNip98Auth_eq: "createNip98Auth w u m p = createAuthHeader w u m p"
  by (simp add: createNip98Auth_def createAuthHeader_def)

lemma createAuthHeader_no_signer:
  "window_nostr w = None \<Longrightarrow>
   createAuthHeader w u m p = ([], Inl (Error ''NIP-07 extension not found''))"
  by (simp add: createAuthHeader_def)

lemma createAuthHeader_log: "Fetch req \<notin> set (fst (createAuthHeader w u m p))"
  by (auto simp: createAuthHeader_def Let_def split: option.splits sum.splits)

text \<open>With a signer, the builder hands exactly one record to it.\<close>

lemma createAuthHeader_signs:
  assumes "window_nostr w = Some signer"
  shows "fst (createAuthHeader w u m p) =
     [SignEvent \<lparr>event_id = None, kind = 27235, content = [],
        tags = [[''u'', u], [''method'', m]] @
          (case p of
             None \<Rightarrow> []
           | Some b \<Rightarrow>
               if b = [] then []
               else [[''payload'', hashHex (digest_SHA256 w (TextEncoder_encode b))]]),
        created_at = Date_now w div 1000, pubkey = None, sig = None\<rparr>]"
  using assms
  by (auto simp: createAuthHeader_def Let_def split: option.splits sum.splits)

text \<open>
  Claim C5, as stated, fails for one body: the builder tests \<^verbatim>\<open>if (payload)\<close>, and the empty
  string is falsy. Supplied with the empty body, the builder signs a record with the two
  required tags only.
\<close>

theorem C5_counterexample:
  "createAuthHeader (example_browser (Some example_signer) (example_reply 200 ''OK'' ''{}''))
       ''https://relay.example'' ''POST'' (Some '''')
     = ([SignEvent \<lparr>event_id = None, kind = 27235, content = [],
           tags = [[''u'', ''https://relay.example''], [''method'', ''POST'']],
           created_at = 1700000000, pubkey = None, sig = None\<rparr>],
        Inr example_header)"
  by (simp add: ex_simps)

text \<open>
  Claim C5, amended. For every non-empty body string, the record handed to the signer has
  exactly three tags, the third being \<^verbatim>\<open>payload\<close> with the hexadecimal encoding (two
  lower-case digits per byte) of the browser's SHA-256 digest of the UTF-8 bytes of the
  body. When no body is supplied the record has the two required tags and no tag named
  \<^verbatim>\<open>payload\<close>.
\<close>

theorem C5_payload_tag:
  assumes "window_nostr w = Some signer"
  shows "(b \<noteq> [] \<longrightarrow>
           (\<exists>ev. fst (createAuthHeader w u m (Some b)) = [SignEvent ev]
              \<and> tags ev = [[''u'', u], [''method'', m],
                            [''payload'', hex_encode (digest_SHA256 w (TextEncoder_encode b))]]))
    \<and> (\<exists>ev. fst (createAuthHeader w u m None) = [SignEvent ev]
              \<and> tags ev = [[''u'', u], [''method'', m]]
              \<and> (\<forall>t \<in> set (tags ev). take 1 t \<noteq> [''payload'']))"
  by (simp add: createAuthHeader_signs [OF assms] hashHex_hex_encode)

theorem C5_payload_tag_witness:
  "window_nostr (example_browser (Some example_signer) (example_reply 200 ''OK'' ''{}''))
       = Some example_signer
   \<and> ''{}'' \<noteq> []
   \<and> fst (createAuthHeader (example_browser (Some example_signer) (example_reply 200 ''OK'' ''{}''))
          ''https://relay.example'' ''POST'' (Some ''{}''))
       = [SignEvent \<lparr>event_id = None, kind = 27235, content = [],
            tags = [[''u'', ''https://relay.example''], [''method'', ''POST''],
                    [''payload'', ''ba78160f'']],
            created_at = 1700000000, pubkey = None, sig = None\<rparr>]
   \<and> hex_encode (digest_SHA256
          (example_browser (Some example_signer) (example_reply 200 ''OK'' ''{}''))
          (TextEncoder_encode ''{}'')) = ''ba78160f''
   \<and> fst (createAuthHeader (example_browser (Some example_signer) (example_reply 200 ''OK'' ''{}''))
          ''https://relay.example'' ''POST'' None)
       = [SignEvent \<lparr>event_id = None, kind = 27235, content = [],
            tags = [[''u'', ''https://relay.example''], [''method'', ''POST'']],
            created_at = 1700000000, pubkey = None, sig = None\<rparr>]"
  using C5_payload_tag [of
      "example_browser (Some example_signer) (example_reply 200 ''OK'' ''{}'')" example_signer
      "''{}''" "''https://relay.example''" "''POST''"]
  by (simp add: ex_simps)

text \<open>
  Claim C6. For every URL and HTTP method, the record the builder hands to the signer (in
  \<^verbatim>\<open>createAuthHeader\<close> and in \<^verbatim>\<open>createNip98Auth\<close> alike) has the kind 27235, empty
  content, a tag list that begins with \<^verbatim>\<open>["u", url]\<close> and \<^verbatim>\<open>["method", method]\<close>, and
  \<^verbatim>\<open>created_at\<close> equal to the current time in whole seconds, \<^verbatim>\<open>Math.floor(Date.now() / 1000)\<close>.
\<close>

theorem C6_attestation_fields:
  assumes "window_nostr w = Some signer"
  shows "\<exists>ev. fst (createAuthHeader w u m p) = [SignEvent ev]
           \<and> fst (createNip98Auth w u m p) = [SignEvent ev]
           \<and> kind ev = 27235
           \<and> content ev = []
           \<and> take 2 (tags ev) = [[''u'', u], [''method'', m]]
           \<and> created_at ev = Date_now w div 1000"
  by (simp add: createNip98Auth_eq createAuthHeader_signs [OF assms])

theorem C6_attestation_fields_witness:
  "window_nostr (example_browser (Some example_signer) (example_reply 200 ''OK'' ''{}''))
       = Some example_signer
   \<and> Date_now (example_browser (Some example_signer) (example_reply 200 ''OK'' ''{}''))
       = 1700000000123
   \<and> fst (createAuthHeader (example_browser (Some example_signer) (example_reply 200 ''OK'' ''{}''))
          ''https://relay.example'' ''POST'' (Some ''{}''))
       = [SignEvent \<lparr>event_id = None, kind = 27235, content = [],
            tags = [[''u'', ''https://relay.example''], [''method'', ''POST''],
                    [''payload'', ''ba78160f'']],
            created_at = 1700000000, pubkey = None, sig = None\<rparr>]
   \<and> fst (createNip98Auth (example_browser (Some example_signer) (example_reply 200 ''OK'' ''{}''))
          ''https://relay.example'' ''POST'' (Some ''{}''))
       = [SignEvent \<lparr>event_id = None, kind = 27235, content = [],
            tags = [[''u'', ''https://relay.example''], [''method'', ''POST''],
                    [''payload'', ''ba78160f'']],
            created_at = 1700000000, pubkey = None, sig = None\<rparr>]"
  using C6_attestation_fields [of
      "example_browser (Some example_signer) (example_reply 200 ''OK'' ''{}'')" example_signer
      "''https://relay.example''" "''POST''" "Some ''{}''"]
  by (simp add: ex_simps)




section \<open>Properties of the RPC caller\<close>

text \<open>The \<^verbatim>\<open>try\<close> block of the events list is the body of the other copies.\<close>

lemma callRelayAPI_try_eq:
  "callRelayAPI_try w (httpUrl r) (rpc_payload m (case ps of None \<Rightarrow> [] | Some x \<Rightarrow> x)) = callRelayAPI w r m ps"
  by (simp add: callRelayAPI_try_def callRelayAPI_def createNip98Auth_eq Let_def)

lemma callRelayAPI_EventsList_catch:
  "callRelayAPI_EventsList w r m ps =
     (case callRelayAPI w r m ps of
        (log, Inr v) \<Rightarrow> (log, Inr v)
      | (log, Inl e) \<Rightarrow>
          (log @ [ConsoleWarn (''NIP-86 API call failed for '' @ m @ '':'') e],
           if startsWith m ''list'' then Inr (JArr []) else Inl e))"
  by (simp add: callRelayAPI_EventsList_def Let_def callRelayAPI_try_eq split: prod.splits sum.splits)

text \<open>Once a request is issued, the outcome is decided by the response to it.\<close>

lemma callRelayAPI_fetched:
  assumes "Fetch req \<in> set (fst (callRelayAPI w r m ps))"
  shows "snd (callRelayAPI w r m ps) =
           (case fetch w req of Inl e \<Rightarrow> Inl e | Inr resp \<Rightarrow> unwrap_response resp)"
proof -
  let ?u = "httpUrl r"
  let ?p = "rpc_payload m (case ps of None \<Rightarrow> [] | Some x \<Rightarrow> x)"
  obtain log res where c: "createAuthHeader w ?u ''POST'' ?p = (log, res)"
    by (cases "createAuthHeader w ?u ''POST'' ?p")
  have nolog: "Fetch req \<notin> set log"
    using createAuthHeader_log [of req w ?u "''POST''" ?p] c by simp
  show ?thesis
  proof (cases res)
    case (Inl e)
    with c assms nolog show ?thesis by (simp add: callRelayAPI_def Let_def)
  next
    case (Inr h)
    with c assms nolog show ?thesis by (auto simp: callRelayAPI_def Let_def)
  qed
qed


lemma callRelayAPI_try_fetched:
  assumes "Fetch req \<in> set (fst (callRelayAPI_try w u p))"
  shows "snd (callRelayAPI_try w u p) =
           (case fetch w req of Inl e \<Rightarrow> Inl e | Inr resp \<Rightarrow> unwrap_response resp)"
proof -
  obtain log res where c: "createAuthHeader w u ''POST'' p = (log, res)"
    by (cases "createAuthHeader w u ''POST'' p")
  have nolog: "Fetch req \<notin> set log"
    using createAuthHeader_log [of req w u "''POST''" p] c by simp
  show ?thesis
  proof (cases res)
    case (Inl e)
    with c assms nolog show ?thesis by (simp add: callRelayAPI_try_def createNip98Auth_eq)
  next
    case (Inr h)
    with c assms nolog show ?thesis by (auto simp: callRelayAPI_try_def createNip98Auth_eq)
  qed
qed

lemma callRelayAPI_EventsList_fst:
  "Fetch req \<in> set (fst (callRelayAPI_EventsList w r m ps)) \<longleftrightarrow> Fetch req \<in> set (fst (callRelayAPI w r m ps))"
  by (auto simp: callRelayAPI_EventsList_catch split: prod.splits sum.splits)

lemma callRelayAPI_EventsList_snd:
  "snd (callRelayAPI_EventsList w r m ps) =
     (case snd (callRelayAPI w r m ps) of
        Inr v \<Rightarrow> Inr v
      | Inl e \<Rightarrow> if startsWith m ''list'' then Inr (JArr []) else Inl e)"
  by (auto simp: callRelayAPI_EventsList_catch split: prod.splits sum.splits)

lemma unwrap_not_ok:
  "\<not> ok resp \<Longrightarrow> unwrap_response resp = Inl (Error (''HTTP '' @ show_nat (status resp) @ '': '' @ statusText resp))"
  by (simp add: unwrap_response_def)

lemma unwrap_error_string:
  "ok resp \<Longrightarrow> json resp = Inr (JObj props) \<Longrightarrow> map_of props ''error'' = Some (JStr s) \<Longrightarrow> s \<noteq> [] \<Longrightarrow>
   unwrap_response resp = Inl (Error s)"
  by (simp add: unwrap_response_def get_prop_def throw_new_Error_def)

lemma unwrap_error_truthy:
  "ok resp \<Longrightarrow> json resp = Inr (JObj props) \<Longrightarrow> map_of props ''error'' = Some v \<Longrightarrow> truthy v \<Longrightarrow>
   unwrap_response resp = Inl (throw_new_Error v)"
  by (simp add: unwrap_response_def get_prop_def)

lemma unwrap_no_error:
  "ok resp \<Longrightarrow> json resp = Inr (JObj props) \<Longrightarrow> (\<forall>e. map_of props ''error'' = Some e \<longrightarrow> \<not> truthy e) \<Longrightarrow>
   unwrap_response resp = Inr (case map_of props ''result'' of None \<Rightarrow> JUndefined | Some v \<Rightarrow> v)"
  by (auto simp: unwrap_response_def get_prop_def split: option.splits)

text \<open>
  Claim C2, as stated, fails in the events list: without a signer, its copy of
  \<^verbatim>\<open>callRelayAPI\<close> called with a method whose name starts with \<^verbatim>\<open>list\<close> does not fail. It
  warns on the console and returns an empty array.
\<close>

theorem C2_counterexample:
  "window_nostr (example_browser None (example_reply 200 ''OK'' ''{}'')) = None
   \<and> callRelayAPI_EventsList (example_browser None (example_reply 200 ''OK'' ''{}''))
         ''wss://relay.example'' ''listbannedevents'' None
       = ([ConsoleWarn ''NIP-86 API call failed for listbannedevents:''
             (Error ''NIP-07 extension not found'')],
          Inr (JArr []))"
  by (simp add: ex_simps)

text \<open>
  Claim C2, amended. If \<^verbatim>\<open>window.nostr\<close> is absent, no copy of \<^verbatim>\<open>callRelayAPI\<close> issues a
  request. The copies without \<^verbatim>\<open>try\<close> fail with \<^verbatim>\<open>NIP-07 extension not found\<close> and have no
  effect at all; the copy of the events list fails in the same way for a method that does
  not start with \<^verbatim>\<open>list\<close> and returns an empty array for one that does.
\<close>

theorem C2_no_signer:
  assumes "window_nostr w = None"
  shows "callRelayAPI w r m ps = ([], Inl (Error ''NIP-07 extension not found''))
    \<and> callRelayAPI_EventsList w r m ps =
        ([ConsoleWarn (''NIP-86 API call failed for '' @ m @ '':'')
            (Error ''NIP-07 extension not found'')],
         if startsWith m ''list'' then Inr (JArr [])
         else Inl (Error ''NIP-07 extension not found''))
    \<and> (\<forall>req. Fetch req \<notin> set (fst (callRelayAPI w r m ps)))
    \<and> (\<forall>req. Fetch req \<notin> set (fst (callRelayAPI_EventsList w r m ps)))"
proof -
  have p: "callRelayAPI w r m ps = ([], Inl (Error ''NIP-07 extension not found''))"
    using assms by (simp add: callRelayAPI_def Let_def createAuthHeader_no_signer)
  then show ?thesis
    by (simp add: callRelayAPI_EventsList_catch)
qed

theorem C2_no_signer_witness:
  "window_nostr (example_browser None (example_reply 200 ''OK'' ''{}'')) = None
   \<and> callRelayAPI (example_browser None (example_reply 200 ''OK'' ''{}''))
         ''wss://relay.example'' ''banevent'' (Some [PStr ''eventid1'', PUndefined])
       = ([], Inl (Error ''NIP-07 extension not found''))
   \<and> callRelayAPI_EventsList (example_browser None (example_reply 200 ''OK'' ''{}''))
         ''wss://relay.example'' ''banevent'' (Some [PStr ''eventid1'', PUndefined])
       = ([ConsoleWarn ''NIP-86 API call failed for banevent:''
             (Error ''NIP-07 extension not found'')],
          Inl (Error ''NIP-07 extension not found''))
   \<and> (\<forall>req. Fetch req \<notin> set (fst (callRelayAPI_EventsList
           (example_browser None (example_reply 200 ''OK'' ''{}''))
           ''wss://relay.example'' ''banevent'' (Some [PStr ''eventid1'', PUndefined]))))"
  using C2_no_signer [of "example_browser None (example_reply 200 ''OK'' ''{}'')"
      "''wss://relay.example''" "''banevent''" "Some [PStr ''eventid1'', PUndefined]"]
  by (simp add: ex_simps)

text \<open>
  Claim C3, as stated, fails in the events list: a response with status 500 to a method
  whose name starts with \<^verbatim>\<open>list\<close> gives an empty array, not a failure.
\<close>

theorem C3_counterexample:
  "example_reply 500 ''Internal Server Error'' ''{}''
       = Inr \<lparr>status = 500, statusText = ''Internal Server Error'', json = Inr (JObj [])\<rparr>
   \<and> callRelayAPI_EventsList
         (example_browser (Some example_signer) (example_reply 500 ''Internal Server Error'' ''{}''))
         ''wss://relay.example'' ''listbannedevents'' None
       = ([SignEvent \<lparr>event_id = None, kind = 27235, content = [],
             tags = [[''u'', ''https://relay.example''], [''method'', ''POST''],
                     [''payload'', ''ba78160f'']],
             created_at = 1700000000, pubkey = None, sig = None\<rparr>,
           Fetch (example_request ''listbannedevents'' []),
           ConsoleWarn ''NIP-86 API call failed for listbannedevents:''
             (Error ''HTTP 500: Internal Server Error'')],
          Inr (JArr []))"
  by (simp add: ex_simps)

text \<open>
  Claim C3, amended. If the response to the request has a status of 300 or more, the
  copies without \<^verbatim>\<open>try\<close> fail with the message \<^verbatim>\<open>HTTP\<close>, the status in decimal, a colon
  and the status text, whatever the body is. The copy of the events list fails in the same
  way for a method that does not start with \<^verbatim>\<open>list\<close> and returns an empty array for one
  that does.
\<close>

theorem C3_http_status:
  assumes "fetch w req = Inr resp" and "300 \<le> status resp"
  shows "(Fetch req \<in> set (fst (callRelayAPI w r m ps)) \<longrightarrow>
            snd (callRelayAPI w r m ps) =
              Inl (Error (''HTTP '' @ show_nat (status resp) @ '': '' @ statusText resp)))
    \<and> (Fetch req \<in> set (fst (callRelayAPI_EventsList w r m ps)) \<longrightarrow>
            snd (callRelayAPI_EventsList w r m ps) =
              (if startsWith m ''list'' then Inr (JArr [])
               else Inl (Error (''HTTP '' @ show_nat (status resp) @ '': '' @ statusText resp))))"
proof -
  have nok: "\<not> ok resp" using assms(2) by (simp add: ok_def)
  have p: "snd (callRelayAPI w r m ps) =
      Inl (Error (''HTTP '' @ show_nat (status resp) @ '': '' @ statusText resp))"
    if "Fetch req \<in> set (fst (callRelayAPI w r m ps))"
    using callRelayAPI_fetched [OF that] assms(1) nok by (simp add: unwrap_not_ok)
  show ?thesis
    using p by (simp add: callRelayAPI_EventsList_fst callRelayAPI_EventsList_snd)
qed

theorem C3_http_status_witness:
  "fetch (example_browser (Some example_signer) (example_reply 404 ''Not Found'' ''{}''))
       (example_request ''banevent'' [PStr ''eventid1'', PStr ''off-topic''])
     = Inr \<lparr>status = 404, statusText = ''Not Found'', json = Inr (JObj [])\<rparr>
   \<and> (300::nat) \<le> status \<lparr>status = 404, statusText = ''Not Found'', json = Inr (JObj [])\<rparr>
   \<and> Fetch (example_request ''banevent'' [PStr ''eventid1'', PStr ''off-topic''])
       \<in> set (fst (callRelayAPI
             (example_browser (Some example_signer) (example_reply 404 ''Not Found'' ''{}''))
             ''wss://relay.example'' ''banevent'' (Some [PStr ''eventid1'', PStr ''off-topic''])))
   \<and> snd (callRelayAPI
             (example_browser (Some example_signer) (example_reply 404 ''Not Found'' ''{}''))
             ''wss://relay.example'' ''banevent'' (Some [PStr ''eventid1'', PStr ''off-topic'']))
       = Inl (Error ''HTTP 404: Not Found'')
   \<and> snd (callRelayAPI_EventsList
             (example_browser (Some example_signer) (example_reply 404 ''Not Found'' ''{}''))
             ''wss://relay.example'' ''banevent'' (Some [PStr ''eventid1'', PStr ''off-topic'']))
       = Inl (Error ''HTTP 404: Not Found'')"
  using C3_http_status [of
      "example_browser (Some example_signer) (example_reply 404 ''Not Found'' ''{}'')"
      "example_request ''banevent'' [PStr ''eventid1'', PStr ''off-topic'']"
      "\<lparr>status = 404, statusText = ''Not Found'', json = Inr (JObj [])\<rparr>"
      "''wss://relay.example''" "''banevent''" "Some [PStr ''eventid1'', PStr ''off-topic'']"]
  by (simp add: ex_simps)

text \<open>
  Claim C4, as stated, fails in three places. The code tests \<^verbatim>\<open>if (result.error)\<close>: a
  response that carries the error field \<^verbatim>\<open>""\<close> does not fail, its result is returned. In
  the events list a response with a non-empty error field to a method whose name starts
  with \<^verbatim>\<open>list\<close> gives an empty array. And the body \<^verbatim>\<open>null\<close>, which carries no error
  field, gives no result: reading \<^verbatim>\<open>result.error\<close> raises a TypeError.
\<close>

theorem C4_counterexample:
  "JSON_parse ''{\"error\":\"\",\"result\":true}''
       = Some (JObj [(''error'', JStr ''''), (''result'', JBool True)])
   \<and> snd (callRelayAPI
         (example_browser (Some example_signer)
            (example_reply 200 ''OK'' ''{\"error\":\"\",\"result\":true}''))
         ''wss://relay.example'' ''banevent'' (Some [PStr ''eventid1'', PStr ''off-topic'']))
       = Inr (JBool True)
   \<and> JSON_parse ''{\"error\":\"blocked\"}'' = Some (JObj [(''error'', JStr ''blocked'')])
   \<and> snd (callRelayAPI_EventsList
         (example_browser (Some example_signer) (example_reply 200 ''OK'' ''{\"error\":\"blocked\"}''))
         ''wss://relay.example'' ''listbannedevents'' None)
       = Inr (JArr [])
   \<and> JSON_parse ''null'' = Some JNull
   \<and> snd (callRelayAPI
         (example_browser (Some example_signer) (example_reply 200 ''OK'' ''null''))
         ''wss://relay.example'' ''listbannedpubkeys'' None)
       = Inl (TypeError ''Cannot read properties of null'')"
  by (simp add: ex_simps)

text \<open>
  Claim C4, amended. Let the response to the request have a success status
  (\<^verbatim>\<open>response.ok\<close>, from 200 to 299) and a body that parses to an object. If the error
  field is a non-empty string, the copies without \<^verbatim>\<open>try\<close> fail with that string as the
  message; the copy of the events list does so for a method that does not start with
  \<^verbatim>\<open>list\<close> and returns an empty array for one that does. If there is no error field, or a
  falsy one, every copy returns the result field as it is (undefined when there is none).
\<close>

theorem C4_success_status:
  assumes "fetch w req = Inr resp"
    and "200 \<le> status resp" and "status resp < 300"
    and "json resp = Inr (JObj props)"
  shows "(Fetch req \<in> set (fst (callRelayAPI w r m ps)) \<longrightarrow>
            (map_of props ''error'' = Some (JStr s) \<and> s \<noteq> [] \<longrightarrow>
               snd (callRelayAPI w r m ps) = Inl (Error s))
          \<and> ((\<forall>e. map_of props ''error'' = Some e \<longrightarrow> \<not> truthy e) \<longrightarrow>
               snd (callRelayAPI w r m ps) =
                 Inr (case map_of props ''result'' of None \<Rightarrow> JUndefined | Some v \<Rightarrow> v)))
    \<and> (Fetch req \<in> set (fst (callRelayAPI_EventsList w r m ps)) \<longrightarrow>
            (map_of props ''error'' = Some (JStr s) \<and> s \<noteq> [] \<longrightarrow>
               snd (callRelayAPI_EventsList w r m ps) =
                 (if startsWith m ''list'' then Inr (JArr []) else Inl (Error s)))
          \<and> ((\<forall>e. map_of props ''error'' = Some e \<longrightarrow> \<not> truthy e) \<longrightarrow>
               snd (callRelayAPI_EventsList w r m ps) =
                 Inr (case map_of props ''result'' of None \<Rightarrow> JUndefined | Some v \<Rightarrow> v)))"
proof -
  have p: "snd (callRelayAPI w r m ps) = unwrap_response resp"
    if "Fetch req \<in> set (fst (callRelayAPI w r m ps))"
    using callRelayAPI_fetched [OF that] assms(1) by simp
  have k: "ok resp" using assms(2,3) by (simp add: ok_def)
  have e: "unwrap_response resp = Inl (Error s)"
    if "map_of props ''error'' = Some (JStr s)" "s \<noteq> []"
    using unwrap_error_string [OF k assms(4) that] .
  have n: "unwrap_response resp =
      Inr (case map_of props ''result'' of None \<Rightarrow> JUndefined | Some v \<Rightarrow> v)"
    if "\<forall>e. map_of props ''error'' = Some e \<longrightarrow> \<not> truthy e"
    using unwrap_no_error [OF k assms(4) that] .
  show ?thesis
    using p e n by (simp add: callRelayAPI_EventsList_fst callRelayAPI_EventsList_snd)
qed

theorem C4_success_status_witness:
  "fetch (example_browser (Some example_signer)
            (example_reply 200 ''OK'' ''{\"result\":[{\"pubkey\":\"abc123\",\"reason\":\"spam\"}]}''))
       (example_request ''listbannedpubkeys'' [])
     = Inr \<lparr>status = 200, statusText = ''OK'',
            json = Inr (JObj [(''result'',
              JArr [JObj [(''pubkey'', JStr ''abc123''), (''reason'', JStr ''spam'')]])])\<rparr>
   \<and> (200::nat) \<le> status \<lparr>status = 200, statusText = ''OK'',
            json = Inr (JObj [(''result'',
              JArr [JObj [(''pubkey'', JStr ''abc123''), (''reason'', JStr ''spam'')]])])\<rparr>
   \<and> status \<lparr>status = 200, statusText = ''OK'',
            json = Inr (JObj [(''result'',
              JArr [JObj [(''pubkey'', JStr ''abc123''), (''reason'', JStr ''spam'')]])])\<rparr>
       < (300::nat)
   \<and> Fetch (example_request ''listbannedpubkeys'' [])
       \<in> set (fst (callRelayAPI (example_browser (Some example_signer)
            (example_reply 200 ''OK'' ''{\"result\":[{\"pubkey\":\"abc123\",\"reason\":\"spam\"}]}''))
            ''wss://relay.example'' ''listbannedpubkeys'' None))
   \<and> map_of [(''result'',
              JArr [JObj [(''pubkey'', JStr ''abc123''), (''reason'', JStr ''spam'')]])] ''error'' = None
   \<and> snd (callRelayAPI (example_browser (Some example_signer)
            (example_reply 200 ''OK'' ''{\"result\":[{\"pubkey\":\"abc123\",\"reason\":\"spam\"}]}''))
            ''wss://relay.example'' ''listbannedpubkeys'' None)
       = Inr (JArr [JObj [(''pubkey'', JStr ''abc123''), (''reason'', JStr ''spam'')]])
   \<and> snd (callRelayAPI_EventsList (example_browser (Some example_signer)
            (example_reply 200 ''OK'' ''{\"result\":[{\"pubkey\":\"abc123\",\"reason\":\"spam\"}]}''))
            ''wss://relay.example'' ''listbannedpubkeys'' None)
       = Inr (JArr [JObj [(''pubkey'', JStr ''abc123''), (''reason'', JStr ''spam'')]])
   \<and> fetch (example_browser (Some example_signer)
            (example_reply 200 ''OK'' ''{\"error\":\"not allowed\"}''))
       (example_request ''banevent'' [PStr ''eventid1''])
     = Inr \<lparr>status = 200, statusText = ''OK'', json = Inr (JObj [(''error'', JStr ''not allowed'')])\<rparr>
   \<and> map_of [(''error'', JStr ''not allowed'')] ''error'' = Some (JStr ''not allowed'')
   \<and> ''not allowed'' \<noteq> []
   \<and> snd (callRelayAPI (example_browser (Some example_signer)
            (example_reply 200 ''OK'' ''{\"error\":\"not allowed\"}''))
            ''wss://relay.example'' ''banevent'' (Some [PStr ''eventid1'']))
       = Inl (Error ''not allowed'')
   \<and> snd (callRelayAPI_EventsList (example_browser (Some example_signer)
            (example_reply 200 ''OK'' ''{\"error\":\"not allowed\"}''))
            ''wss://relay.example'' ''banevent'' (Some [PStr ''eventid1'']))
       = Inl (Error ''not allowed'')"
  using C4_success_status [of
      "example_browser (Some example_signer)
            (example_reply 200 ''OK'' ''{\"result\":[{\"pubkey\":\"abc123\",\"reason\":\"spam\"}]}'')"
      "example_request ''listbannedpubkeys'' []"
      "\<lparr>status = 200, statusText = ''OK'',
            json = Inr (JObj [(''result'',
              JArr [JObj [(''pubkey'', JStr ''abc123''), (''reason'', JStr ''spam'')]])])\<rparr>"
      "[(''result'', JArr [JObj [(''pubkey'', JStr ''abc123''), (''reason'', JStr ''spam'')]])]"
      "''wss://relay.example''" "''listbannedpubkeys''" None "''x''"]
    C4_success_status [of
      "example_browser (Some example_signer) (example_reply 200 ''OK'' ''{\"error\":\"not allowed\"}'')"
      "example_request ''banevent'' [PStr ''eventid1'']"
      "\<lparr>status = 200, statusText = ''OK'', json = Inr (JObj [(''error'', JStr ''not allowed'')])\<rparr>"
      "[(''error'', JStr ''not allowed'')]"
      "''wss://relay.example''" "''banevent''" "Some [PStr ''eventid1'']" "''not allowed''"]
  by (simp add: ex_simps)

text \<open>
  Claim C9. In the copy of \<^verbatim>\<open>callRelayAPI\<close> of the events list, with \<open>t\<close> the outcome of
  its \<^verbatim>\<open>try\<close> block: whenever the block fails with an error, the call returns an empty
  array if the method name starts with \<^verbatim>\<open>list\<close>, and fails with that same error
  otherwise. The block fails when the signer is missing, when \<^verbatim>\<open>fetch\<close> rejects, when the
  status is not a success status, and when the response carries a truthy error field.
\<close>

theorem C9_catch:
  assumes "t = callRelayAPI_try w (httpUrl r) (rpc_payload m (case ps of None \<Rightarrow> [] | Some x \<Rightarrow> x))"
  shows "(snd t = Inl e \<longrightarrow>
            snd (callRelayAPI_EventsList w r m ps) =
              (if startsWith m ''list'' then Inr (JArr []) else Inl e))
    \<and> (window_nostr w = None \<longrightarrow> snd t = Inl (Error ''NIP-07 extension not found''))
    \<and> (Fetch req \<in> set (fst t) \<and> fetch w req = Inl e' \<longrightarrow> snd t = Inl e')
    \<and> (Fetch req \<in> set (fst t) \<and> fetch w req = Inr resp \<and> \<not> ok resp \<longrightarrow>
          snd t = Inl (Error (''HTTP '' @ show_nat (status resp) @ '': '' @ statusText resp)))
    \<and> (Fetch req \<in> set (fst t) \<and> fetch w req = Inr resp \<and> ok resp
          \<and> json resp = Inr (JObj props) \<and> map_of props ''error'' = Some v \<and> truthy v \<longrightarrow>
          snd t = Inl (throw_new_Error v))"
proof -
  have a: "snd (callRelayAPI_EventsList w r m ps) =
      (if startsWith m ''list'' then Inr (JArr []) else Inl e)" if "snd t = Inl e"
    using that assms
    by (auto simp: callRelayAPI_EventsList_def Let_def split: prod.splits sum.splits)
  have b: "snd t = Inl (Error ''NIP-07 extension not found'')" if "window_nostr w = None"
    using that assms by (simp add: callRelayAPI_try_def createNip98Auth_eq createAuthHeader_no_signer)
  have c: "snd t = (case fetch w req of Inl e \<Rightarrow> Inl e | Inr resp \<Rightarrow> unwrap_response resp)"
    if "Fetch req \<in> set (fst t)"
    using callRelayAPI_try_fetched that assms by simp
  show ?thesis
    using a b c by (auto simp: unwrap_not_ok unwrap_error_truthy)
qed

theorem C9_catch_witness:
  "window_nostr (example_browser None (example_reply 200 ''OK'' ''{}'')) = None
   \<and> snd (callRelayAPI_try (example_browser None (example_reply 200 ''OK'' ''{}''))
          (httpUrl ''wss://relay.example'') (rpc_payload ''listeventsneedingmoderation'' []))
       = Inl (Error ''NIP-07 extension not found'')
   \<and> startsWith ''listeventsneedingmoderation'' ''list''
   \<and> snd (callRelayAPI_EventsList (example_browser None (example_reply 200 ''OK'' ''{}''))
          ''wss://relay.example'' ''listeventsneedingmoderation'' None)
       = Inr (JArr [])
   \<and> snd (callRelayAPI_try (example_browser None (example_reply 200 ''OK'' ''{}''))
          (httpUrl ''wss://relay.example'') (rpc_payload ''allowevent'' [PStr ''eventid1'', PUndefined]))
       = Inl (Error ''NIP-07 extension not found'')
   \<and> \<not> startsWith ''allowevent'' ''list''
   \<and> snd (callRelayAPI_EventsList (example_browser None (example_reply 200 ''OK'' ''{}''))
          ''wss://relay.example'' ''allowevent'' (Some [PStr ''eventid1'', PUndefined]))
       = Inl (Error ''NIP-07 extension not found'')
   \<and> Fetch (example_request ''listbannedevents'' [])
       \<in> set (fst (callRelayAPI_try
             (example_browser (Some example_signer) (Inl (TypeError ''Failed to fetch'')))
             (httpUrl ''wss://relay.example'') (rpc_payload ''listbannedevents'' [])))
   \<and> fetch (example_browser (Some example_signer) (Inl (TypeError ''Failed to fetch'')))
         (example_request ''listbannedevents'' [])
       = Inl (TypeError ''Failed to fetch'')
   \<and> snd (callRelayAPI_EventsList
         (example_browser (Some example_signer) (Inl (TypeError ''Failed to fetch'')))
         ''wss://relay.example'' ''listbannedevents'' None)
       = Inr (JArr [])
   \<and> \<not> ok \<lparr>status = 403, statusText = ''Forbidden'', json = Inr (JObj [])\<rparr>
   \<and> snd (callRelayAPI_EventsList
         (example_browser (Some example_signer) (example_reply 403 ''Forbidden'' ''{}''))
         ''wss://relay.example'' ''listbannedevents'' None)
       = Inr (JArr [])
   \<and> truthy (JStr ''blocked'')
   \<and> snd (callRelayAPI_EventsList
         (example_browser (Some example_signer) (example_reply 200 ''OK'' ''{\"error\":\"blocked\"}''))
         ''wss://relay.example'' ''banevent'' (Some [PStr ''eventid1'', PStr ''off-topic'']))
       = Inl (Error ''blocked'')"
  using C9_catch [OF refl, of "example_browser None (example_reply 200 ''OK'' ''{}'')"
      "''wss://relay.example''" "''listeventsneedingmoderation''" None]
    C9_catch [OF refl, of "example_browser None (example_reply 200 ''OK'' ''{}'')"
      "''wss://relay.example''" "''allowevent''" "Some [PStr ''eventid1'', PUndefined]"]
    C9_catch [OF refl, of
      "example_browser (Some example_signer) (Inl (TypeError ''Failed to fetch''))"
      "''wss://relay.example''" "''listbannedevents''" None]
    C9_catch [OF refl, of
      "example_browser (Some example_signer) (example_reply 403 ''Forbidden'' ''{}'')"
      "''wss://relay.example''" "''listbannedevents''" None]
    C9_catch [OF refl, of
      "example_browser (Some example_signer) (example_reply 200 ''OK'' ''{\"error\":\"blocked\"}'')"
      "''wss://relay.example''" "''banevent''" "Some [PStr ''eventid1'', PStr ''off-topic'']"]
  by (simp add: ex_simps)

section \<open>JSON.parse reads back what JSON.stringify wrote\<close>

subsection \<open>String literals\<close>















subsection \<open>Numbers\<close>

lemma of_char_digit_char: "d < 10 \<Longrightarrow> (of_char (digit_char d) :: nat) = 48 + d"
proof -
  have "list_all (\<lambda>d. (of_char (digit_char d) :: nat) = 48 + d) [0..<10]" by code_simp
  then show "d < 10 \<Longrightarrow> (of_char (digit_char d) :: nat) = 48 + d" by (simp add: list_all_iff)
qed




lemma digits_val_snoc: "digits_val (ds @ [c]) = digits_val ds * 10 + (of_char c - 48)"
  by (simp add: digits_val_def)

lemma digits_val_toString_radix: "digits_val (toString_radix 10 n) = n"
proof (induction n rule: less_induct)
  case (less n)
  show ?case
  proof (cases "n < 10")
    case True
    then show ?thesis by (simp add: toString_radix_small digits_val_def of_char_digit_char)
  next
    case False
    then have "n div 10 < n" by simp
    from less [OF this] False show ?thesis
      by (simp add: toString_radix_step digits_val_snoc of_char_digit_char)
  qed
qed








text \<open>The decimal text determines the number: a status can be read back from the message.\<close>

lemma show_nat_inj: "show_nat a = show_nat b \<Longrightarrow> a = b"
  by (metis digits_val_toString_radix show_nat_def)



subsection \<open>Parameters and the parameter array\<close>













subsection \<open>The request body\<close>







subsection \<open>The parsers consume text\<close>

text \<open>
  A parser that returns leaves less text than it was given. So the length checks in
  \<open>parse_elements\<close> and \<open>parse_members\<close> always succeed.
\<close>

lemma parse_chars_shorter: "parse_chars s = Some (t, r) \<Longrightarrow> length r < length s"
proof (induction s arbitrary: t r rule: parse_chars.induct)
  case 1
  then show ?case by simp
next
  case (2 c s)
  show ?case
  proof (cases "c = dquote")
    case True
    with 2 show ?thesis by simp
  next
    case nq: False
    show ?thesis
    proof (cases "c = bslash")
      case True
      show ?thesis
      proof (cases s)
        case Nil
        with 2 nq True show ?thesis by simp
      next
        case (Cons e s')
        show ?thesis
        proof (cases "e = CHR ''u''")
          case u: True
          from 2(4) nq True Cons u obtain n t' where
            h: "parse_hex4 (take 4 s') = Some n" "n < 256" "parse_chars (drop 4 s') = Some (t', r)"
            by (auto split: option.splits if_splits)
          from 2(1) [OF nq True Cons u h(1) h(2) h(3)] Cons show ?thesis by simp
        next
          case nu: False
          from 2(4) nq True Cons nu obtain x t' where
            h: "unescape e = Some x" "parse_chars s' = Some (t', r)"
            by (auto split: option.splits if_splits)
          from 2(2) [OF nq True Cons nu h(1) h(2)] Cons show ?thesis by simp
        qed
      qed
    next
      case nb: False
      from 2(4) nq nb obtain t' where
        h: "\<not> (of_char c :: nat) < 0x20" "parse_chars s = Some (t', r)"
        by (auto split: option.splits if_splits)
      from 2(3) [OF nq nb h(1) h(2)] show ?thesis by simp
    qed
  qed
qed

lemma parse_number_shorter: "parse_number s = Some (v, r) \<Longrightarrow> length r < length s"
proof -
  assume a: "parse_number s = Some (v, r)"
  define s1 where "s1 = (if startsWith s ''-'' then drop 1 s else s)"
  from a have ne: "takeWhile is_digit s1 \<noteq> []" and r: "r = dropWhile is_digit s1"
    by (auto simp: parse_number_def Let_def s1_def split: if_splits)
  have "length (takeWhile is_digit s1) + length (dropWhile is_digit s1) = length s1"
    by (metis length_append takeWhile_dropWhile_id)
  with ne have "length r < length s1" using r by (cases "takeWhile is_digit s1") simp_all
  moreover have "length s1 \<le> length s" by (simp add: s1_def)
  ultimately show ?thesis by simp
qed

lemma parse_consumes:
  "\<forall>v r. parse_value s = Some (v, r) \<longrightarrow> length r < length s"
  "\<forall>vs r. parse_elements s1 = Some (vs, r) \<longrightarrow> length r < length s1"
  "\<forall>ms r. parse_members s2 = Some (ms, r) \<longrightarrow> length r < length s2"
proof (induction s and s1 and s2 rule: parse_value_parse_elements_parse_members.induct)
  case (1 s)
  show ?case
  proof (intro allI impI)
    fix v r assume a: "parse_value s = Some (v, r)"
    show "length r < length s"
    proof (cases "skip_ws s")
      case Nil
      with a show ?thesis by (simp add: parse_value.simps)
    next
      case (Cons c t)
      have lt: "length t < length s" using skip_ws_Cons_length [OF Cons] .
      have le: "length (skip_ws t) \<le> length t" by (rule length_skip_ws)
      consider (arr0) "c = CHR ''[''" "startsWith (skip_ws t) '']''"
        | (arr) "c = CHR ''[''" "\<not> startsWith (skip_ws t) '']''"
        | (obj0) "c \<noteq> CHR ''[''" "c = CHR ''{''" "startsWith (skip_ws t) ''}''"
        | (obj) "c \<noteq> CHR ''[''" "c = CHR ''{''" "\<not> startsWith (skip_ws t) ''}''"
        | (str) "c \<noteq> CHR ''[''" "c \<noteq> CHR ''{''" "c = dquote"
        | (other) "c \<noteq> CHR ''[''" "c \<noteq> CHR ''{''" "c \<noteq> dquote"
        by blast
      then show ?thesis
      proof cases
        case arr0
        with a Cons lt le show ?thesis by (auto simp: parse_value.simps)
      next
        case arr
        with a Cons obtain vs where "parse_elements t = Some (vs, r)"
          by (auto simp: parse_value.simps split: option.splits)
        with 1(1) [OF Cons arr] lt show ?thesis by simp
      next
        case obj0
        with a Cons lt le show ?thesis by (auto simp: parse_value.simps)
      next
        case obj
        with a Cons obtain ms where "parse_members t = Some (ms, r)"
          by (auto simp: parse_value.simps split: option.splits)
        with 1(2) [OF Cons obj] lt show ?thesis by simp
      next
        case str
        with a Cons obtain x where "parse_chars t = Some (x, r)"
          by (auto simp: parse_value.simps split: option.splits)
        from parse_chars_shorter [OF this] lt show ?thesis by simp
      next
        case other
        have sl: "length (c # t) \<le> length s" using lt by simp
        from a Cons other have
          "(r = drop 4 (c # t)) \<or> (r = drop 5 (c # t)) \<or> parse_number (c # t) = Some (v, r)"
          by (auto simp: parse_value.simps split: if_splits)
        then show ?thesis
          using sl parse_number_shorter [of "c # t" v r] by auto
      qed
    qed
  qed
next
  case (2 s)
  show ?case
  proof (intro allI impI)
    fix vs r assume a: "parse_elements s = Some (vs, r)"
    then obtain v r0 where pv: "parse_value s = Some (v, r0)"
      by (subst (asm) parse_elements.simps) (auto split: option.splits)
    from 2(1) pv have l0: "length r0 < length s" by simp
    from a pv obtain c r' where sk: "skip_ws r0 = c # r'"
      by (subst (asm) parse_elements.simps) (auto split: option.splits list.splits)
    have l1: "length r' < length r0" using skip_ws_Cons_length [OF sk] .
    show "length r < length s"
    proof (cases "c = CHR '',''")
      case True
      with a pv sk obtain ws where g: "length r' < length s" and pe: "parse_elements r' = Some (ws, r)"
        by (subst (asm) parse_elements.simps) (auto split: option.splits if_splits)
      from 2(2) [OF pv refl sk True g] pe g show ?thesis by simp
    next
      case False
      with a pv sk have "r = r'"
        by (subst (asm) parse_elements.simps) (auto split: option.splits if_splits)
      with l0 l1 show ?thesis by simp
    qed
  qed
next
  case (3 s)
  show ?case
  proof (intro allI impI)
    fix ms r assume a: "parse_members s = Some (ms, r)"
    from a obtain c t where sk: "skip_ws s = c # t" and cq: "c = dquote"
      by (subst (asm) parse_members.simps) (auto split: list.splits if_splits)
    from a sk cq obtain k r1 where pc: "parse_chars t = Some (k, r1)"
      by (subst (asm) parse_members.simps) (auto split: option.splits)
    from a sk cq pc obtain c1 r2 where sk1: "skip_ws r1 = c1 # r2" and c1: "c1 = CHR '':''" and g2: "length r2 < length s"
      by (subst (asm) parse_members.simps) (auto split: option.splits list.splits if_splits)
    from a sk cq pc sk1 c1 g2 obtain v r3 where pv: "parse_value r2 = Some (v, r3)"
      by (subst (asm) parse_members.simps) (auto split: option.splits)
    have nn: "\<not> (c1 \<noteq> CHR '':'' \<or> \<not> length r2 < length s)" using c1 g2 by simp
    have nc: "\<not> c \<noteq> dquote" using cq by simp
    from 3(1) [OF sk nc pc refl sk1 nn] pv have l3: "length r3 < length r2" by simp
    from a sk cq pc sk1 c1 g2 pv obtain c3 r4 where sk3: "skip_ws r3 = c3 # r4"
      by (subst (asm) parse_members.simps) (auto split: option.splits list.splits)
    have l4: "length r4 < length r3" using skip_ws_Cons_length [OF sk3] .
    show "length r < length s"
    proof (cases "c3 = CHR '',''")
      case True
      with a sk cq pc sk1 c1 g2 pv sk3 obtain ws where g: "length r4 < length s" and pm: "parse_members r4 = Some (ws, r)"
        by (subst (asm) parse_members.simps) (auto split: option.splits if_splits)
      from 3(2) [OF sk nc pc refl sk1 nn pv refl sk3 True g] pm g show ?thesis by simp
    next
      case False
      with a sk cq pc sk1 c1 g2 pv sk3 have "r = r4"
        by (subst (asm) parse_members.simps) (auto split: option.splits if_splits)
      with l3 l4 g2 show ?thesis by simp
    qed
  qed
qed

subsection \<open>The claim about the request body\<close>




section \<open>Properties of the events query\<close>

lemma set_insert_sorted: "set (insert_sorted f x ys) = insert x (set ys)"
  by (induction ys) auto

lemma mset_insert_sorted: "mset (insert_sorted f x ys) = add_mset x (mset ys)"
  by (induction ys) auto

lemma mset_Array_sort: "mset (Array_sort f xs) = mset xs"
  by (induction xs) (simp_all add: Array_sort_def mset_insert_sorted)

lemma sorted_insert_sorted:
  "sorted_wrt (\<lambda>a b. created_at b \<le> created_at a) ys \<Longrightarrow>
   sorted_wrt (\<lambda>a b. created_at b \<le> created_at a) (insert_sorted (\<lambda>a b. created_at b - created_at a) x ys)"
  by (induction ys) (auto simp: set_insert_sorted)

lemma sorted_Array_sort:
  "sorted_wrt (\<lambda>a b. created_at b \<le> created_at a) (Array_sort (\<lambda>a b. created_at b - created_at a) xs)"
  by (induction xs) (simp_all add: Array_sort_def sorted_insert_sorted)

text \<open>
  For this comparison function the model of \<^verbatim>\<open>sort\<close> is the library's stable sort by the
  negated timestamp.
\<close>

lemma insert_sorted_insort_key:
  "insert_sorted (\<lambda>a b. created_at b - created_at a) x ys =
     insort_key (\<lambda>e. - created_at e) x ys"
  by (induction ys) auto

lemma Array_sort_sort_key:
  "Array_sort (\<lambda>a b. created_at b - created_at a) xs = sort_key (\<lambda>e. - created_at e) xs"
  by (induction xs) (simp_all add: Array_sort_def sort_key_def insert_sorted_insort_key)

lemma sorted_wrt_adjacent:
  "sorted_wrt P xs \<Longrightarrow> Suc i < length xs \<Longrightarrow> P (xs ! i) (xs ! Suc i)"
  by (simp add: sorted_wrt_nth_less)

text \<open>
  Claim C10. Whenever the transport returns a batch of events, the events query returns a
  list with the same events (a permutation of the batch) in which every element's
  \<^verbatim>\<open>created_at\<close> is at least that of the element after it: newest first.
\<close>

theorem C10_newest_first:
  assumes "nostr_query [events_filter parseInt kindFilter limit customKind] = Inr events"
  shows "\<exists>result. events_queryFn parseInt nostr_query kindFilter limit customKind = Inr result
           \<and> mset result = mset events
           \<and> (\<forall>i. Suc i < length result \<longrightarrow> created_at (result ! Suc i) \<le> created_at (result ! i))"
  using assms sorted_wrt_adjacent [OF sorted_Array_sort]
  by (auto simp: events_queryFn_def mset_Array_sort)

theorem C10_newest_first_witness:
  "(\<lambda>filters. Inr [example_event ''a'' 10, example_event ''b'' 30, example_event ''c'' 20])
       [events_filter (\<lambda>s. None) ''all'' 20 '''']
     = (Inr [example_event ''a'' 10, example_event ''b'' 30, example_event ''c'' 20]
          :: error + NostrEvent list)
   \<and> events_queryFn (\<lambda>s. None)
         (\<lambda>filters. Inr [example_event ''a'' 10, example_event ''b'' 30, example_event ''c'' 20])
         ''all'' 20 ''''
       = Inr [example_event ''b'' 30, example_event ''c'' 20, example_event ''a'' 10]
   \<and> created_at ([example_event ''b'' 30, example_event ''c'' 20, example_event ''a'' 10] ! 1)
       \<le> created_at ([example_event ''b'' 30, example_event ''c'' 20, example_event ''a'' 10] ! 0)
   \<and> created_at ([example_event ''b'' 30, example_event ''c'' 20, example_event ''a'' 10] ! 2)
       \<le> created_at ([example_event ''b'' 30, example_event ''c'' 20, example_event ''a'' 10] ! 1)"
  using C10_newest_first [of
      "\<lambda>filters. Inr [example_event ''a'' 10, example_event ''b'' 30, example_event ''c'' 20]"
      "\<lambda>s. None" "''all''" 20 "''''"
      "[example_event ''a'' 10, example_event ''b'' 30, example_event ''c'' 20]"]
  by (simp add: events_queryFn_def Array_sort_def example_event_def)

end
